theory Spec2Isabelle
  imports Complex_Main
begin

section \<open>FinanzasPro.jsx: the financial metrics and chart transforms\<close>

text \<open>
  The embedding follows \<^verbatim>\<open>src/Monserrat Chicho/Finanzas/FinanzasPro.jsx\<close>.
  JavaScript numbers are modelled as exact rationals (\<^typ>\<open>rat\<close>): the rounding of
  IEEE-754 doubles is not part of the model, and a division whose divisor is zero (which in
  JavaScript yields \<^verbatim>\<open>Infinity\<close> or \<^verbatim>\<open>NaN\<close> instead of raising) is the
  error value \<open>NonFinite\<close>. Reading a property of \<^verbatim>\<open>undefined\<close> is the error
  value \<open>TypeError\<close>.
\<close>

subsection \<open>Numbers and their text\<close>

datatype js_error = TypeError | NonFinite

definition js_div :: "rat \<Rightarrow> rat \<Rightarrow> js_error + rat" where
  "js_div a b = (if b = 0 then Inl NonFinite else Inr (a / b))"

text \<open>\<^verbatim>\<open>Math.round\<close>: the nearest integer, a tie going up.\<close>

definition Math_round :: "rat \<Rightarrow> int" where
  "Math_round x = \<lfloor>x + 1 / 2\<rfloor>"

definition digit_char :: "nat \<Rightarrow> char" where
  "digit_char d = ''0123456789'' ! d"

text \<open>The decimal digits of a natural number, as the number-to-string conversion writes them.\<close>

fun show_nat :: "nat \<Rightarrow> string" where
  "show_nat n = (if n < 10 then [digit_char n] else show_nat (n div 10) @ [digit_char (n mod 10)])"

declare show_nat.simps [simp del]

definition show_int :: "int \<Rightarrow> string" where
  "show_int i = (if i < 0 then CHR ''-'' # show_nat (nat (- i)) else show_nat (nat i))"

definition is_digit :: "char \<Rightarrow> bool" where
  "is_digit c = (c \<in> set ''0123456789'')"

definition digit_val :: "char \<Rightarrow> nat" where
  "digit_val c = of_char c - 48"

text \<open>The value of a string of decimal digits; the empty string reads as 0.\<close>

definition read_digits :: "string \<Rightarrow> nat" where
  "read_digits s = foldl (\<lambda>a c. 10 * a + digit_val c) 0 s"

text \<open>
  The text a number formatter returns. \<^verbatim>\<open>x.toFixed(1)\<close> writes fixed notation with one
  decimal for \<open>\<bar>x\<bar> < 10^21\<close>; from \<open>10^21\<close> on it returns \<^verbatim>\<open>String(x)\<close>, whose
  digits are those of the double and are kept abstract as \<open>Exponential x\<close>.
\<close>

datatype numtext = Fixed string | Exponential rat

definition fixed1_digits :: "rat \<Rightarrow> string" where
  "fixed1_digits y =
     (let n = nat \<lfloor>y * 10 + 1 / 2\<rfloor>
      in show_nat (n div 10) @ ''.'' @ show_nat (n mod 10))"

definition toFixed1 :: "rat \<Rightarrow> numtext" where
  "toFixed1 x =
     (if 10 ^ 21 \<le> \<bar>x\<bar> then Exponential x
      else if x < 0 then Fixed (CHR ''-'' # fixed1_digits (- x))
      else Fixed (fixed1_digits x))"


subsection \<open>Strings\<close>

text \<open>\<^verbatim>\<open>s.split(c)\<close> for a one-character separator.\<close>

fun split_on :: "char \<Rightarrow> string \<Rightarrow> string list" where
  "split_on c [] = [[]]"
| "split_on c (x # xs) =
     (if x = c then [] # split_on c xs
      else (case split_on c xs of [] \<Rightarrow> [[x]] | p # ps \<Rightarrow> (x # p) # ps))"

text \<open>\<^verbatim>\<open>s.replace(c, '')\<close> with a string pattern: only the first occurrence goes.\<close>

fun remove_first :: "char \<Rightarrow> string \<Rightarrow> string" where
  "remove_first c [] = []"
| "remove_first c (x # xs) = (if x = c then xs else x # remove_first c xs)"

definition is_space :: "char \<Rightarrow> bool" where
  "is_space c = (c = CHR '' '')"

text \<open>
  \<^verbatim>\<open>parseFloat\<close> on the strings this program gives it: leading blanks are skipped, then
  the longest prefix of decimal digits with an optional fraction is read, and whatever
  follows is ignored; \<open>None\<close> is \<^verbatim>\<open>NaN\<close> (no digit to read). Signs and exponents do not
  occur in the table the program parses and are not read.
\<close>

definition parseFloat :: "string \<Rightarrow> rat option" where
  "parseFloat s =
     (let t = dropWhile is_space s;
          ip = takeWhile is_digit t;
          r = dropWhile is_digit t;
          fp = (case r of [] \<Rightarrow> [] | c # r' \<Rightarrow> if c = CHR ''.'' then takeWhile is_digit r' else [])
      in if ip = [] \<and> fp = [] then None
         else Some (of_nat (read_digits ip) + of_nat (read_digits fp) / 10 ^ length fp))"

subsection \<open>Data\<close>

text \<open>
  A \<^verbatim>\<open>Date\<close> holds its readings in the local time zone: \<^verbatim>\<open>getFullYear()\<close>,
  \<^verbatim>\<open>getMonth()\<close> (0 to 11) and \<^verbatim>\<open>getDate()\<close> (the day of the month); the program
  reads the first two only. The field \<open>date\<close> of a transaction holds the readings of
  \<^verbatim>\<open>new Date(t.date)\<close>, a valid date.
\<close>

record jsdate =
  getFullYear :: int
  getMonth :: nat
  getDate :: nat

datatype ttype = Ingreso | Egreso

record transaction =
  ttype :: ttype
  amount :: rat
  category :: string
  date :: jsdate
  deleted :: bool

text \<open>A field that a stored document may lack is an option; \<open>None\<close> is \<^verbatim>\<open>undefined\<close>.\<close>

record healthData =
  investmentCapital :: "rat option"
  totalDebt :: "rat option"
  emergencyFund :: "rat option"

record portfolioData =
  riskProfile :: "string option"

record allocation_entry =
  alloc_name :: string
  alloc_value :: nat
  color :: string

record risk_profile =
  descripcion :: string
  allocation :: "allocation_entry list"
  rendimiento_esperado :: string

text \<open>The table of risk tiers; its descriptions are written without their accents.\<close>

definition RISK_PROFILES :: "(string \<times> risk_profile) list" where
  "RISK_PROFILES =
     [(''Conservador'',
       \<lparr>descripcion = ''Prioriza la preservacion del capital con bajo riesgo.'',
        allocation = [\<lparr>alloc_name = ''Renta Fija (RF)'', alloc_value = 70, color = ''#4c51bf''\<rparr>,
                      \<lparr>alloc_name = ''Renta Variable (RV)'', alloc_value = 30, color = ''#48bb78''\<rparr>],
        rendimiento_esperado = ''5% - 8%''\<rparr>),
      (''Moderado'',
       \<lparr>descripcion = ''Busca un equilibrio entre crecimiento y riesgo.'',
        allocation = [\<lparr>alloc_name = ''Renta Fija (RF)'', alloc_value = 50, color = ''#4c51bf''\<rparr>,
                      \<lparr>alloc_name = ''Renta Variable (RV)'', alloc_value = 50, color = ''#48bb78''\<rparr>],
        rendimiento_esperado = ''8% - 12%''\<rparr>),
      (''Agresivo'',
       \<lparr>descripcion = ''Busca alto crecimiento aceptando mayor volatilidad.'',
        allocation = [\<lparr>alloc_name = ''Renta Fija (RF)'', alloc_value = 30, color = ''#4c51bf''\<rparr>,
                      \<lparr>alloc_name = ''Renta Variable (RV)'', alloc_value = 70, color = ''#48bb78''\<rparr>],
        rendimiento_esperado = ''12% - 18%''\<rparr>)]"

text \<open>\<^verbatim>\<open>x || 0\<close> on an optional number: \<^verbatim>\<open>undefined\<close> and 0 both give 0.\<close>

definition or_zero :: "rat option \<Rightarrow> rat" where
  "or_zero v = (case v of None \<Rightarrow> 0 | Some x \<Rightarrow> x)"

text \<open>\<^verbatim>\<open>healthData?.f\<close>: the field of an object that may itself be missing.\<close>

definition opt_field :: "('a \<Rightarrow> 'b option) \<Rightarrow> 'a option \<Rightarrow> 'b option" where
  "opt_field f obj = (case obj of None \<Rightarrow> None | Some x \<Rightarrow> f x)"

text \<open>Truthiness of an optional number: \<^verbatim>\<open>undefined\<close> and 0 are falsy.\<close>

definition truthy_num :: "rat option \<Rightarrow> bool" where
  "truthy_num v = (case v of None \<Rightarrow> False | Some x \<Rightarrow> x \<noteq> 0)"

subsection \<open>calculateMetrics\<close>

record metrics =
  totalIncome :: rat
  totalExpense :: rat
  netMonthlyFlow :: rat
  savingsRatio :: numtext
  debtToIncomeRatio :: numtext
  emergencyFundMonths :: numtext
  futureValue :: rat
  averageMonthlyExpense :: rat

text \<open>\<^verbatim>\<open>xs.reduce((sum, t) => sum + t.amount, 0)\<close>\<close>

definition sum_amount :: "transaction list \<Rightarrow> rat" where
  "sum_amount xs = foldl (\<lambda>sum t. sum + amount t) 0 xs"

text \<open>The template string \<^verbatim>\<open>`${y}-${m}`\<close> of two integers.\<close>

definition month_key :: "int \<Rightarrow> nat \<Rightarrow> string" where
  "month_key y m = show_int y @ ''-'' @ show_nat m"

text \<open>\<^verbatim>\<open>new Set(xs).size\<close>\<close>

definition set_size :: "'a list \<Rightarrow> nat" where
  "set_size xs = length (remdups xs)"

text \<open>
  The annual rate of a risk profile: the text before the first \<^verbatim>\<open>-\<close> of
  \<^verbatim>\<open>rendimiento_esperado\<close>, without its \<^verbatim>\<open>%\<close>, parsed as a number (not yet divided
  by 100). A key that is not in the table gives \<^verbatim>\<open>undefined\<close>, whose property read throws.
\<close>

definition profile_rate :: "string \<Rightarrow> js_error + rat" where
  "profile_rate k =
     (case map_of RISK_PROFILES k of
        None \<Rightarrow> Inl TypeError
      | Some p \<Rightarrow>
          (case parseFloat (remove_first CHR ''%'' (hd (split_on CHR ''-'' (rendimiento_esperado p)))) of
             None \<Rightarrow> Inl NonFinite
           | Some r \<Rightarrow> Inr r))"

text \<open>Sequencing of steps that may fail.\<close>

definition and_then :: "js_error + 'a \<Rightarrow> ('a \<Rightarrow> js_error + 'b) \<Rightarrow> js_error + 'b" where
  "and_then r f = (case r of Inl e \<Rightarrow> Inl e | Inr x \<Rightarrow> f x)"

text \<open>
  The clock reading \<^verbatim>\<open>new Date()\<close> is the first argument \<open>now\<close>; the other three are
  the arguments of the source function. A risk profile that is \<^verbatim>\<open>undefined\<close> or the empty
  string is falsy and selects the default rate.
\<close>

definition calculateMetrics ::
  "jsdate \<Rightarrow> transaction list \<Rightarrow> healthData option \<Rightarrow> portfolioData option \<Rightarrow> js_error + metrics" where
  "calculateMetrics now transactions healthData portfolioData =
     (let currentMonth = getMonth now;
          currentYear = getFullYear now;
          currentMonthData =
            filter (\<lambda>t. getMonth (date t) = currentMonth \<and> getFullYear (date t) = currentYear) transactions;
          totalIncome = sum_amount (filter (\<lambda>t. ttype t = Ingreso) currentMonthData);
          totalExpense = sum_amount (filter (\<lambda>t. ttype t = Egreso) currentMonthData);
          netMonthlyFlow = totalIncome - totalExpense
      in
      and_then (if totalIncome > 0
                then and_then (js_div netMonthlyFlow totalIncome) (\<lambda>q. Inr (q * 100))
                else Inr 0) (\<lambda>savingsRatio.
      and_then (if truthy_num (opt_field totalDebt healthData) \<and> totalIncome > 0
                then and_then (js_div (or_zero (opt_field totalDebt healthData)) (totalIncome * 12))
                       (\<lambda>q. Inr (q * 100))
                else Inr 0) (\<lambda>debtToIncomeRatio.
      and_then (if length transactions > 0
                then js_div (sum_amount (filter (\<lambda>t. ttype t = Egreso) transactions))
                       (let size = set_size (map (\<lambda>t. month_key (getFullYear (date t)) (getMonth (date t))) transactions)
                        in if size = 0 then 1 else of_nat size)
                else Inr 0) (\<lambda>averageMonthlyExpense.
      and_then (if averageMonthlyExpense > 0
                then js_div (or_zero (opt_field emergencyFund healthData)) averageMonthlyExpense
                else Inr 0) (\<lambda>emergencyFundMonths.
      and_then (case opt_field riskProfile portfolioData of
                  None \<Rightarrow> Inr (5 / 100)
                | Some k \<Rightarrow> if k = [] then Inr (5 / 100)
                            else and_then (profile_rate k) (\<lambda>r. js_div r 100)) (\<lambda>portfolioReturn.
      Inr \<lparr>totalIncome = totalIncome,
           totalExpense = totalExpense,
           netMonthlyFlow = netMonthlyFlow,
           savingsRatio = toFixed1 (max 0 savingsRatio),
           debtToIncomeRatio = toFixed1 debtToIncomeRatio,
           emergencyFundMonths = toFixed1 emergencyFundMonths,
           futureValue = or_zero (opt_field investmentCapital healthData) * (1 + portfolioReturn) ^ 10,
           averageMonthlyExpense = averageMonthlyExpense\<rparr>))))))"

subsection \<open>Objects used as dictionaries, and sorting\<close>

text \<open>
  An object built by assignments \<^verbatim>\<open>acc[k] = v\<close> is an association list in insertion
  order, which is the order of \<^verbatim>\<open>Object.keys\<close> and \<^verbatim>\<open>Object.values\<close> for keys that
  are not canonical array indices (category names and the month keys are not).
\<close>

fun obj_set :: "(string \<times> 'v) list \<Rightarrow> string \<Rightarrow> 'v \<Rightarrow> (string \<times> 'v) list" where
  "obj_set [] k v = [(k, v)]"
| "obj_set ((k', v') # kvs) k v =
     (if k' = k then (k, v) # kvs else (k', v') # obj_set kvs k v)"

text \<open>An in-place change of the value stored under a key.\<close>

definition obj_modify :: "(string \<times> 'v) list \<Rightarrow> string \<Rightarrow> ('v \<Rightarrow> 'v) \<Rightarrow> (string \<times> 'v) list" where
  "obj_modify kvs k f = map (\<lambda>(k', v). if k' = k then (k', f v) else (k', v)) kvs"

text \<open>
  \<^verbatim>\<open>xs.sort(cmp)\<close>: the sort is stable, and a comparator result of \<^verbatim>\<open>NaN\<close>
  (\<open>None\<close>) counts as 0. The model is the stable insertion sort.
\<close>

definition cmp_value :: "rat option \<Rightarrow> rat" where
  "cmp_value r = (case r of None \<Rightarrow> 0 | Some v \<Rightarrow> v)"

fun insert_by :: "('a \<Rightarrow> 'a \<Rightarrow> rat option) \<Rightarrow> 'a \<Rightarrow> 'a list \<Rightarrow> 'a list" where
  "insert_by cmp x [] = [x]"
| "insert_by cmp x (y # ys) =
     (if cmp_value (cmp x y) \<le> 0 then x # y # ys else y # insert_by cmp x ys)"

definition js_sort :: "('a \<Rightarrow> 'a \<Rightarrow> rat option) \<Rightarrow> 'a list \<Rightarrow> 'a list" where
  "js_sort cmp xs = foldr (insert_by cmp) xs []"

subsection \<open>TransactionPieChart\<close>

record pie_entry =
  entry_name :: string
  entry_value :: rat

text \<open>
  The data the pie chart draws (\<^verbatim>\<open>pieData\<close>). \<^verbatim>\<open>Object.keys(g).map(key => ({name: key,
  value: g[key]}))\<close> visits the entries of \<open>g\<close> in order.
\<close>

definition TransactionPieChart :: "transaction list \<Rightarrow> pie_entry list" where
  "TransactionPieChart transactions =
     (let expenseData = filter (\<lambda>t. ttype t = Egreso) transactions;
          groupedData =
            foldl (\<lambda>acc item. obj_set acc (category item)
                                  (or_zero (map_of acc (category item)) + amount item))
                  [] expenseData;
          pieData =
            js_sort (\<lambda>a b. Some (entry_value b - entry_value a))
                    (map (\<lambda>(key, v). \<lparr>entry_name = key, entry_value = v\<rparr>) groupedData)
      in pieData)"

subsection \<open>IncomeExpenseBarChart\<close>

record bucket =
  name :: string
  Ingreso_sum :: rat
  Egreso_sum :: rat

text \<open>
  \<^verbatim>\<open>date.toLocaleString('es-US', { month: 'short' })\<close>: the abbreviated Spanish month
  names of the runtime's locale data, for \<^verbatim>\<open>getMonth()\<close> from 0 to 11.
\<close>

definition month_short :: "nat \<Rightarrow> string" where
  "month_short m =
     [''ene'', ''feb'', ''mar'', ''abr'', ''may'', ''jun'',
      ''jul'', ''ago'', ''sept'', ''oct'', ''nov'', ''dic''] ! (m mod 12)"

text \<open>\<^verbatim>\<open>b[t.type] += t.amount\<close>\<close>

definition bucket_add :: "ttype \<Rightarrow> rat \<Rightarrow> bucket \<Rightarrow> bucket" where
  "bucket_add ty a b =
     (case ty of Ingreso \<Rightarrow> b\<lparr>Ingreso_sum := Ingreso_sum b + a\<rparr>
               | Egreso \<Rightarrow> b\<lparr>Egreso_sum := Egreso_sum b + a\<rparr>)"

definition monthlyData :: "transaction list \<Rightarrow> (string \<times> bucket) list" where
  "monthlyData transactions =
     foldl (\<lambda>acc t.
              let d = date t;
                  monthKey = month_key (getFullYear d) (getMonth d + 1);
                  acc' = (if map_of acc monthKey = None
                          then obj_set acc monthKey
                                 \<lparr>name = month_short (getMonth d) @ '' '' @ show_int (getFullYear d),
                                  Ingreso_sum = 0, Egreso_sum = 0\<rparr>
                          else acc)
              in obj_modify acc' monthKey (bucket_add (ttype t) (amount t)))
           [] transactions"

text \<open>
  \<^verbatim>\<open>name.split(' ').map(s => parseInt(s.replace(/[^0-9]/g, '')) || 0)\<close>: each part keeps
  its digits only; no digit, or the number 0, gives 0.
\<close>

definition label_numbers :: "string \<Rightarrow> nat list" where
  "label_numbers s = map (\<lambda>p. read_digits (filter is_digit p)) (split_on CHR '' '' s)"

text \<open>Array destructuring reads an index; beyond the end it reads \<^verbatim>\<open>undefined\<close>.\<close>

definition nth_opt :: "'a list \<Rightarrow> nat \<Rightarrow> 'a option" where
  "nth_opt xs i = (if i < length xs then Some (xs ! i) else None)"

text \<open>Subtraction of two destructured numbers; with \<^verbatim>\<open>undefined\<close> it is \<^verbatim>\<open>NaN\<close>.\<close>

definition num_sub :: "nat option \<Rightarrow> nat option \<Rightarrow> rat option" where
  "num_sub a b =
     (case (a, b) of (Some x, Some y) \<Rightarrow> Some (of_int (int x - int y)) | _ \<Rightarrow> None)"

definition compare_buckets :: "bucket \<Rightarrow> bucket \<Rightarrow> rat option" where
  "compare_buckets a b =
     (let aYear = nth_opt (label_numbers (name a)) 0;
          aMonth = nth_opt (label_numbers (name a)) 1;
          bYear = nth_opt (label_numbers (name b)) 0;
          bMonth = nth_opt (label_numbers (name b)) 1
      in if aYear \<noteq> bYear then num_sub aYear bYear else num_sub aMonth bMonth)"

text \<open>\<^verbatim>\<open>xs.slice(-6)\<close>: the last six elements, or all of them when there are fewer.\<close>

definition slice_last6 :: "'a list \<Rightarrow> 'a list" where
  "slice_last6 xs = drop (length xs - 6) xs"

text \<open>The data the bar chart draws (\<^verbatim>\<open>data\<close>).\<close>

definition IncomeExpenseBarChart :: "transaction list \<Rightarrow> bucket list" where
  "IncomeExpenseBarChart transactions =
     slice_last6 (js_sort compare_buckets (map snd (monthlyData transactions)))"

subsection \<open>ProjectionLineChart\<close>





subsection \<open>Notions of the specification\<close>

text \<open>
  The expected annual return of each risk tier as a closed interval of percentages,
  as the specification describes the table.
\<close>

definition expected_return :: "(string \<times> nat \<times> nat) list" where
  "expected_return = [(''Conservador'', 5, 8), (''Moderado'', 8, 12), (''Agresivo'', 12, 18)]"

text \<open>
  The annual rate of a portfolio profile: the lower bound of the interval of its tier,
  5 percent when no risk profile is set, and none for a tier that the table lacks.
\<close>

definition annual_rate :: "portfolioData option \<Rightarrow> rat option" where
  "annual_rate p =
     (case opt_field riskProfile p of
        None \<Rightarrow> Some (5 / 100)
      | Some k \<Rightarrow>
          if k = [] then Some (5 / 100)
          else (case map_of expected_return k of
                  None \<Rightarrow> None
                | Some (lo, hi) \<Rightarrow> Some (of_nat lo / 100)))"

text \<open>The sum of the amounts of one type whose date falls within the calendar month of \<open>now\<close>.\<close>

definition month_total :: "ttype \<Rightarrow> jsdate \<Rightarrow> transaction list \<Rightarrow> rat" where
  "month_total ty now ts =
     sum_list (map amount
       (filter (\<lambda>t. ttype t = ty \<and> getMonth (date t) = getMonth now
                    \<and> getFullYear (date t) = getFullYear now) ts))"

text \<open>The sum of all expense amounts, across all time.\<close>

definition expense_total :: "transaction list \<Rightarrow> rat" where
  "expense_total ts = sum_list (map amount (filter (\<lambda>t. ttype t = Egreso) ts))"

text \<open>The number of distinct (year, month) pairs among the dates of all transactions.\<close>

definition month_buckets :: "transaction list \<Rightarrow> nat" where
  "month_buckets ts = card ((\<lambda>t. (getFullYear (date t), getMonth (date t))) ` set ts)"

text \<open>
  The average monthly expense: all expenses divided by the number of month buckets, the
  divisor being 1 when there is no bucket.
\<close>

definition avg_expense :: "transaction list \<Rightarrow> rat" where
  "avg_expense ts =
     expense_total ts / (if month_buckets ts = 0 then 1 else of_nat (month_buckets ts))"

text \<open>The sum of the expense amounts of one category.\<close>

definition category_total :: "string \<Rightarrow> transaction list \<Rightarrow> rat" where
  "category_total c ts =
     sum_list (map amount (filter (\<lambda>t. ttype t = Egreso \<and> category t = c) ts))"

text \<open>The reducer of \<open>TransactionPieChart\<close>, under a name.\<close>

definition group_step :: "(string \<times> rat) list \<Rightarrow> transaction \<Rightarrow> (string \<times> rat) list" where
  "group_step acc item =
     obj_set acc (category item) (or_zero (map_of acc (category item)) + amount item)"

section \<open>Properties\<close>

subsection \<open>The soft-delete flag\<close>

lemma sum_amount_map_deleted:
  "sum_amount (map (\<lambda>t. t\<lparr>deleted := f t\<rparr>) ts) = sum_amount ts"
  by (simp add: sum_amount_def foldl_map)

lemma filter_map_deleted:
  "(\<And>t. P (t\<lparr>deleted := f t\<rparr>) = P t) \<Longrightarrow>
   filter P (map (\<lambda>t. t\<lparr>deleted := f t\<rparr>) ts) = map (\<lambda>t. t\<lparr>deleted := f t\<rparr>) (filter P ts)"
  by (induction ts) auto

text \<open>
  Claim C10. The soft-delete flag is invisible to the metrics and to both grouping
  transforms: setting the flag \<open>deleted\<close> of the transactions of a list to any values
  (in particular flipping it on one of them) leaves the results of \<open>calculateMetrics\<close>,
  of the category grouping and of the monthly grouping unchanged, because none of them
  reads the flag.
\<close>

theorem soft_delete_invisible:
  "calculateMetrics now (map (\<lambda>t. t\<lparr>deleted := f t\<rparr>) ts) h p = calculateMetrics now ts h p
   \<and> TransactionPieChart (map (\<lambda>t. t\<lparr>deleted := f t\<rparr>) ts) = TransactionPieChart ts
   \<and> IncomeExpenseBarChart (map (\<lambda>t. t\<lparr>deleted := f t\<rparr>) ts) = IncomeExpenseBarChart ts"
proof (intro conjI)
  show "calculateMetrics now (map (\<lambda>t. t\<lparr>deleted := f t\<rparr>) ts) h p = calculateMetrics now ts h p"
    unfolding calculateMetrics_def
    by (simp add: filter_map_deleted sum_amount_map_deleted o_def)
  show "TransactionPieChart (map (\<lambda>t. t\<lparr>deleted := f t\<rparr>) ts) = TransactionPieChart ts"
    unfolding TransactionPieChart_def
    by (simp add: filter_map_deleted foldl_map)
  show "IncomeExpenseBarChart (map (\<lambda>t. t\<lparr>deleted := f t\<rparr>) ts) = IncomeExpenseBarChart ts"
    unfolding IncomeExpenseBarChart_def monthlyData_def
    by (simp add: foldl_map)
qed

subsection \<open>The monthly grouping\<close>

lemma IncomeExpenseBarChart_length: "length (IncomeExpenseBarChart ts) \<le> 6"
  by (simp add: IncomeExpenseBarChart_def slice_last6_def)

text \<open>
  Claim C1. The claim says that the buckets of the monthly grouping come out in
  chronological order, by year and then month. The comparator reads year and month back
  from the label, whose first part is the month name (no digit, read as 0) and whose second
  part is the year: it compares the years only. Two months of one year therefore stay in
  the order in which they were first met. For a list holding a transaction of February 2024
  followed by one of January 2024, the result has the bucket of February before the bucket
  of January.
\<close>

theorem IncomeExpenseBarChart_orders_by_year_only:
  "IncomeExpenseBarChart
     [\<lparr>ttype = Ingreso, amount = 100, category = ''Salario'',
       date = \<lparr>getFullYear = 2024, getMonth = 1, getDate = 10\<rparr>, deleted = False\<rparr>,
      \<lparr>ttype = Ingreso, amount = 50, category = ''Salario'',
       date = \<lparr>getFullYear = 2024, getMonth = 0, getDate = 10\<rparr>, deleted = False\<rparr>]
   = [\<lparr>name = ''feb 2024'', Ingreso_sum = 100, Egreso_sum = 0\<rparr>,
      \<lparr>name = ''ene 2024'', Ingreso_sum = 50, Egreso_sum = 0\<rparr>]"
  by code_simp

subsection \<open>The projection series\<close>





subsection \<open>Decimal text and month keys\<close>

lemma digit_char_cases:
  "d < 10 \<Longrightarrow> digit_char d \<in> set ''0123456789''"
  unfolding digit_char_def by (rule nth_mem) simp

lemma digit_val_digit_char: "d < 10 \<Longrightarrow> digit_val (digit_char d) = d"
proof -
  assume "d < 10"
  then have "d \<in> {0, 1, 2, 3, 4, 5, 6, 7, 8, 9}" by auto
  then show ?thesis
    by (auto simp add: digit_val_def digit_char_def)
qed

lemma show_nat_digits: "set (show_nat n) \<subseteq> set ''0123456789''"
proof (induction n rule: show_nat.induct)
  case (1 n)
  show ?case
  proof (cases "n < 10")
    case True
    then show ?thesis using digit_char_cases [of n] by (subst show_nat.simps) simp
  next
    case False
    then show ?thesis using 1 digit_char_cases [of "n mod 10"]
      by (subst show_nat.simps) simp
  qed
qed

lemma show_nat_not_Nil: "show_nat n \<noteq> []"
  by (subst show_nat.simps) simp

lemma read_digits_snoc: "read_digits (xs @ [c]) = 10 * read_digits xs + digit_val c"
  by (simp add: read_digits_def)

lemma read_digits_show_nat: "read_digits (show_nat n) = n"
proof (induction n rule: show_nat.induct)
  case (1 n)
  show ?case
  proof (cases "n < 10")
    case True
    then show ?thesis
      by (subst show_nat.simps) (simp add: read_digits_def digit_val_digit_char)
  next
    case False
    then show ?thesis using 1
      by (subst show_nat.simps) (simp add: read_digits_snoc digit_val_digit_char)
  qed
qed

lemma show_nat_inj: "show_nat a = show_nat b \<Longrightarrow> a = b"
  by (metis read_digits_show_nat)

lemma show_nat_no_minus: "CHR ''-'' \<notin> set (show_nat n)"
  using show_nat_digits [of n] by auto

lemma show_int_inj: "show_int a = show_int b \<Longrightarrow> a = b"
proof -
  assume e: "show_int a = show_int b"
  have hd_nat: "\<And>n. hd (show_nat n) \<noteq> CHR ''-''"
    using show_nat_no_minus show_nat_not_Nil by (metis hd_in_set)
  show ?thesis
  proof (cases "a < 0")
    case True
    show ?thesis
    proof (cases "b < 0")
      case True
      with \<open>a < 0\<close> e have "show_nat (nat (- a)) = show_nat (nat (- b))"
        by (simp add: show_int_def)
      then have "nat (- a) = nat (- b)" by (rule show_nat_inj)
      with True \<open>a < 0\<close> show ?thesis by simp
    next
      case False
      with \<open>a < 0\<close> e have "CHR ''-'' # show_nat (nat (- a)) = show_nat (nat b)"
        by (simp add: show_int_def)
      then have "hd (show_nat (nat b)) = CHR ''-''" by (metis list.sel(1))
      with hd_nat show ?thesis by blast
    qed
  next
    case False
    show ?thesis
    proof (cases "b < 0")
      case True
      with \<open>\<not> a < 0\<close> e have "show_nat (nat a) = CHR ''-'' # show_nat (nat (- b))"
        by (simp add: show_int_def)
      then have "hd (show_nat (nat a)) = CHR ''-''" by (metis list.sel(1))
      with hd_nat show ?thesis by blast
    next
      case False
      with \<open>\<not> a < 0\<close> e have "show_nat (nat a) = show_nat (nat b)"
        by (simp add: show_int_def)
      then have "nat a = nat b" by (rule show_nat_inj)
      with False \<open>\<not> a < 0\<close> show ?thesis by simp
    qed
  qed
qed

lemma month_key_inj:
  assumes "month_key y m = month_key y' m'"
  shows "y = y' \<and> m = m'"
proof -
  have tw: "\<And>y m. takeWhile (\<lambda>c. c \<noteq> CHR ''-'') (rev (month_key y m)) = rev (show_nat m)"
  proof -
    fix y m
    have "rev (month_key y m) = rev (show_nat m) @ CHR ''-'' # rev (show_int y)"
      by (simp add: month_key_def)
    moreover have "\<forall>c \<in> set (rev (show_nat m)). c \<noteq> CHR ''-''"
      using show_nat_no_minus [of m] by auto
    ultimately show "takeWhile (\<lambda>c. c \<noteq> CHR ''-'') (rev (month_key y m)) = rev (show_nat m)"
      by (simp add: takeWhile_tail)
  qed
  from assms tw [of y m] tw [of y' m'] have "rev (show_nat m) = rev (show_nat m')" by simp
  then have m: "m = m'" using show_nat_inj by simp
  with assms have "show_int y = show_int y'" by (simp add: month_key_def)
  then have "y = y'" by (rule show_int_inj)
  with m show ?thesis by simp
qed

lemma set_size_card: "set_size xs = card (set xs)"
  by (simp add: set_size_def length_remdups_card_conv)

lemma set_size_month_key:
  "set_size (map (\<lambda>t. month_key (getFullYear (date t)) (getMonth (date t))) ts)
   = card ((\<lambda>t. (getFullYear (date t), getMonth (date t))) ` set ts)"
proof -
  have inj: "inj (\<lambda>(y, m). month_key y m)"
    by (rule injI) (auto dest: month_key_inj)
  have "(\<lambda>t. month_key (getFullYear (date t)) (getMonth (date t))) ` set ts
        = (\<lambda>(y, m). month_key y m) ` ((\<lambda>t. (getFullYear (date t), getMonth (date t))) ` set ts)"
    by (simp add: image_image)
  then show ?thesis
    by (simp add: set_size_card card_image [OF inj_on_subset [OF inj subset_UNIV]])
qed

lemma sum_amount_eq: "sum_amount xs = sum_list (map amount xs)"
proof -
  have "\<And>a. foldl (\<lambda>sum t. sum + amount t) a xs = a + sum_list (map amount xs)"
    by (induction xs) simp_all
  then show ?thesis by (simp add: sum_amount_def)
qed

subsection \<open>The metrics in closed form\<close>

lemma profile_rate_eq:
  "profile_rate k =
     (case map_of expected_return k of None \<Rightarrow> Inl TypeError | Some (lo, hi) \<Rightarrow> Inr (of_nat lo))"
proof -
  have c: "profile_rate ''Conservador'' = Inr 5" by code_simp
  have m: "profile_rate ''Moderado'' = Inr 8" by code_simp
  have a: "profile_rate ''Agresivo'' = Inr 12" by code_simp
  have n: "k \<noteq> ''Conservador'' \<Longrightarrow> k \<noteq> ''Moderado'' \<Longrightarrow> k \<noteq> ''Agresivo'' \<Longrightarrow>
           profile_rate k = Inl TypeError"
    by (simp add: profile_rate_def RISK_PROFILES_def)
  show ?thesis
    using c m a n by (auto simp add: expected_return_def)
qed

lemma portfolioReturn_eq:
  "(case opt_field riskProfile p of
      None \<Rightarrow> Inr (5 / 100)
    | Some k \<Rightarrow> if k = [] then Inr (5 / 100)
                else and_then (profile_rate k) (\<lambda>r. js_div r 100))
   = (case annual_rate p of None \<Rightarrow> Inl TypeError | Some r \<Rightarrow> Inr r)"
  by (simp add: annual_rate_def profile_rate_eq and_then_def js_div_def
           split: option.splits prod.splits)

lemma RISK_PROFILES_intervals:
  "map (\<lambda>(k, pr). (k, rendimiento_esperado pr)) RISK_PROFILES
   = map (\<lambda>(k, lo, hi). (k, show_nat lo @ ''% - '' @ show_nat hi @ ''%'')) expected_return"
  by code_simp

lemma month_buckets_pos: "ts \<noteq> [] \<Longrightarrow> 0 < month_buckets ts"
  by (simp add: month_buckets_def card_gt_0_iff)

lemma calculateMetrics_eq:
  "calculateMetrics now ts h p =
     (case annual_rate p of
        None \<Rightarrow> Inl TypeError
      | Some r \<Rightarrow>
          Inr \<lparr>totalIncome = month_total Ingreso now ts,
               totalExpense = month_total Egreso now ts,
               netMonthlyFlow = month_total Ingreso now ts - month_total Egreso now ts,
               savingsRatio =
                 toFixed1 (max 0 (if month_total Ingreso now ts > 0
                                  then (month_total Ingreso now ts - month_total Egreso now ts)
                                         / month_total Ingreso now ts * 100
                                  else 0)),
               debtToIncomeRatio =
                 toFixed1 (if truthy_num (opt_field totalDebt h) \<and> month_total Ingreso now ts > 0
                           then or_zero (opt_field totalDebt h) / (month_total Ingreso now ts * 12) * 100
                           else 0),
               emergencyFundMonths =
                 toFixed1 (if avg_expense ts > 0
                           then or_zero (opt_field emergencyFund h) / avg_expense ts
                           else 0),
               futureValue = or_zero (opt_field investmentCapital h) * (1 + r) ^ 10,
               averageMonthlyExpense = avg_expense ts\<rparr>)"
proof -
  have ti: "sum_amount (filter (\<lambda>t. ttype t = Ingreso)
              (filter (\<lambda>t. getMonth (date t) = getMonth now \<and> getFullYear (date t) = getFullYear now) ts))
            = month_total Ingreso now ts"
    by (simp add: sum_amount_eq month_total_def conj_commute conj_left_commute cong: conj_cong)
  have te: "sum_amount (filter (\<lambda>t. ttype t = Egreso)
              (filter (\<lambda>t. getMonth (date t) = getMonth now \<and> getFullYear (date t) = getFullYear now) ts))
            = month_total Egreso now ts"
    by (simp add: sum_amount_eq month_total_def conj_commute conj_left_commute cong: conj_cong)
  have av: "(if length ts > 0
                then js_div (sum_amount (filter (\<lambda>t. ttype t = Egreso) ts))
                       (if set_size (map (\<lambda>t. month_key (getFullYear (date t)) (getMonth (date t))) ts) = 0
                        then 1
                        else of_nat (set_size (map (\<lambda>t. month_key (getFullYear (date t)) (getMonth (date t))) ts)))
                else Inr 0) = Inr (avg_expense ts)"
    using month_buckets_pos [of ts]
    by (auto simp add: avg_expense_def js_div_def set_size_month_key sum_amount_eq
          expense_total_def month_buckets_def Let_def)
  show ?thesis
    apply (simp only: calculateMetrics_def Let_def)
    apply (simp only: ti te av portfolioReturn_eq)
    apply (simp add: and_then_def js_div_def split: option.splits)
    done
qed

subsection \<open>The metrics\<close>

lemma toFixed1_zero: "toFixed1 0 = Fixed ''0.0''"
  by code_simp



lemma month_total_Nil: "month_total ty now [] = 0"
  by (simp add: month_total_def)

lemma avg_expense_Nil: "avg_expense [] = 0"
  by (simp add: avg_expense_def expense_total_def)









text \<open>
  Claim C5. The future value is the investment capital times \<open>(1 + rate) ^ 10\<close>, where the
  rate is the lower bound of the expected-return interval of the portfolio's risk tier,
  and 5 percent when no risk profile is set; the intervals are those written in the
  table \<open>RISK_PROFILES\<close>. With a capital of 10000 and the tier Moderado the future value
  is \<open>10000 * 1.08 ^ 10\<close>, which rounds to 21589.
\<close>

theorem futureValue_lower_bound:
  assumes "annual_rate p = Some r"
  shows "(\<exists>m. calculateMetrics now ts h p = Inr m
            \<and> futureValue m = or_zero (opt_field investmentCapital h) * (1 + r) ^ 10)
       \<and> map (\<lambda>(k, pr). (k, rendimiento_esperado pr)) RISK_PROFILES
           = map (\<lambda>(k, lo, hi). (k, show_nat lo @ ''% - '' @ show_nat hi @ ''%'')) expected_return
       \<and> (\<exists>m. calculateMetrics now ts
                 (Some \<lparr>investmentCapital = Some 10000, totalDebt = Some 0, emergencyFund = Some 0\<rparr>)
                 (Some \<lparr>riskProfile = Some ''Moderado''\<rparr>) = Inr m
            \<and> futureValue m = 10000 * (108 / 100) ^ 10
            \<and> Math_round (futureValue m) = 21589)"
proof (intro conjI)
  show "\<exists>m. calculateMetrics now ts h p = Inr m
            \<and> futureValue m = or_zero (opt_field investmentCapital h) * (1 + r) ^ 10"
    using assms by (simp add: calculateMetrics_eq)
  show "map (\<lambda>(k, pr). (k, rendimiento_esperado pr)) RISK_PROFILES
           = map (\<lambda>(k, lo, hi). (k, show_nat lo @ ''% - '' @ show_nat hi @ ''%'')) expected_return"
    by (rule RISK_PROFILES_intervals)
  have m: "annual_rate (Some \<lparr>riskProfile = Some ''Moderado''\<rparr>) = Some (8 / 100)"
    by (simp add: annual_rate_def opt_field_def expected_return_def)
  have v: "(1 + 8 / 100 :: rat) = 108 / 100" by simp
  have rd: "Math_round (10000 * (27 / 25) ^ 10) = 21589" by code_simp
  show "\<exists>m. calculateMetrics now ts
                 (Some \<lparr>investmentCapital = Some 10000, totalDebt = Some 0, emergencyFund = Some 0\<rparr>)
                 (Some \<lparr>riskProfile = Some ''Moderado''\<rparr>) = Inr m
            \<and> futureValue m = 10000 * (108 / 100) ^ 10
            \<and> Math_round (futureValue m) = 21589"
    by (simp only: calculateMetrics_eq m option.case v)
       (simp add: or_zero_def opt_field_def rd)
qed

theorem futureValue_lower_bound_witness:
  "annual_rate (Some \<lparr>riskProfile = Some ''Agresivo''\<rparr>) = Some (12 / 100)
   \<and> (\<exists>m. calculateMetrics \<lparr>getFullYear = 2024, getMonth = 1, getDate = 15\<rparr> []
            (Some \<lparr>investmentCapital = Some 100, totalDebt = None, emergencyFund = None\<rparr>)
            (Some \<lparr>riskProfile = Some ''Agresivo''\<rparr>) = Inr m
          \<and> futureValue m = 100 * (1 + 12 / 100) ^ 10)"
proof -
  have a: "annual_rate (Some \<lparr>riskProfile = Some ''Agresivo''\<rparr>) = Some (12 / 100)"
    by (simp add: annual_rate_def opt_field_def expected_return_def)
  show ?thesis
    using futureValue_lower_bound [OF a, of "\<lparr>getFullYear = 2024, getMonth = 1, getDate = 15\<rparr>" "[]"
        "Some \<lparr>investmentCapital = Some 100, totalDebt = None, emergencyFund = None\<rparr>"] a
    by (auto simp add: or_zero_def opt_field_def)
qed

text \<open>
  Claim C9. For the empty transaction list, every health profile (present or absent) and
  every portfolio profile whose risk tier is absent or in the table, \<open>calculateMetrics\<close>
  returns metrics: the totals, the net flow and the average monthly expense are 0 and the
  three ratios are \<open>0.0\<close>. For every transaction list no division by zero occurs: the
  result is never the error \<open>NonFinite\<close>.
\<close>

theorem empty_history_zero:
  assumes "annual_rate p = Some r"
  shows "calculateMetrics now [] h p =
           Inr \<lparr>totalIncome = 0, totalExpense = 0, netMonthlyFlow = 0,
                savingsRatio = Fixed ''0.0'', debtToIncomeRatio = Fixed ''0.0'',
                emergencyFundMonths = Fixed ''0.0'',
                futureValue = or_zero (opt_field investmentCapital h) * (1 + r) ^ 10,
                averageMonthlyExpense = 0\<rparr>
         \<and> calculateMetrics now ts h p \<noteq> Inl NonFinite"
  using assms
  by (simp add: calculateMetrics_eq month_total_Nil avg_expense_Nil toFixed1_zero)

theorem empty_history_zero_witness:
  "annual_rate None = Some (5 / 100)
   \<and> calculateMetrics \<lparr>getFullYear = 2024, getMonth = 1, getDate = 15\<rparr> [] None None =
           Inr \<lparr>totalIncome = 0, totalExpense = 0, netMonthlyFlow = 0,
                savingsRatio = Fixed ''0.0'', debtToIncomeRatio = Fixed ''0.0'',
                emergencyFundMonths = Fixed ''0.0'',
                futureValue = 0,
                averageMonthlyExpense = 0\<rparr>"
proof -
  have a: "annual_rate None = Some (5 / 100)"
    by (simp add: annual_rate_def opt_field_def)
  show ?thesis
    using empty_history_zero [OF a, of "\<lparr>getFullYear = 2024, getMonth = 1, getDate = 15\<rparr>" None "[]"] a
    by (simp add: or_zero_def opt_field_def)
qed

text \<open>
  Claim C2, as amended. \<open>calculateMetrics\<close> reads the clock: its result is determined by
  the transaction list, the two profiles and the calendar month and year of the moment of
  the call. Two calls with the same three inputs made in the same month of the same year
  give the same result, whatever the day.
\<close>

theorem calculateMetrics_same_month:
  assumes "getMonth now = getMonth now'" and "getFullYear now = getFullYear now'"
  shows "calculateMetrics now ts h p = calculateMetrics now' ts h p"
  using assms by (simp add: calculateMetrics_def)

theorem calculateMetrics_same_month_witness:
  "getMonth \<lparr>getFullYear = 2024, getMonth = 0, getDate = 2\<rparr>
     = getMonth \<lparr>getFullYear = 2024, getMonth = 0, getDate = 31\<rparr>
   \<and> getFullYear \<lparr>getFullYear = 2024, getMonth = 0, getDate = 2\<rparr>
     = getFullYear \<lparr>getFullYear = 2024, getMonth = 0, getDate = 31\<rparr>
   \<and> calculateMetrics \<lparr>getFullYear = 2024, getMonth = 0, getDate = 2\<rparr>
       [\<lparr>ttype = Ingreso, amount = 1000, category = ''Salario'',
         date = \<lparr>getFullYear = 2024, getMonth = 0, getDate = 15\<rparr>, deleted = False\<rparr>] None None
     = calculateMetrics \<lparr>getFullYear = 2024, getMonth = 0, getDate = 31\<rparr>
       [\<lparr>ttype = Ingreso, amount = 1000, category = ''Salario'',
         date = \<lparr>getFullYear = 2024, getMonth = 0, getDate = 15\<rparr>, deleted = False\<rparr>] None None"
  using calculateMetrics_same_month
     [of "\<lparr>getFullYear = 2024, getMonth = 0, getDate = 2\<rparr>"
         "\<lparr>getFullYear = 2024, getMonth = 0, getDate = 31\<rparr>"
         "[\<lparr>ttype = Ingreso, amount = 1000, category = ''Salario'',
            date = \<lparr>getFullYear = 2024, getMonth = 0, getDate = 15\<rparr>, deleted = False\<rparr>]" None None]
  by simp

text \<open>
  The claim as it was stated says that the result depends on the three inputs alone. The
  same list and profiles give different metrics on 31 January 2024 and on 1 February 2024.
\<close>

theorem calculateMetrics_clock_counterexample:
  "calculateMetrics \<lparr>getFullYear = 2024, getMonth = 0, getDate = 31\<rparr>
     [\<lparr>ttype = Ingreso, amount = 1000, category = ''Salario'',
       date = \<lparr>getFullYear = 2024, getMonth = 0, getDate = 15\<rparr>, deleted = False\<rparr>] None None
   \<noteq> calculateMetrics \<lparr>getFullYear = 2024, getMonth = 1, getDate = 1\<rparr>
     [\<lparr>ttype = Ingreso, amount = 1000, category = ''Salario'',
       date = \<lparr>getFullYear = 2024, getMonth = 0, getDate = 15\<rparr>, deleted = False\<rparr>] None None"
  by code_simp

subsection \<open>The category grouping\<close>

lemma map_of_obj_set: "map_of (obj_set acc k v) = (map_of acc)(k \<mapsto> v)"
  by (induction acc k v rule: obj_set.induct) auto

lemma keys_obj_set:
  "map fst (obj_set acc k v) = (if k \<in> fst ` set acc then map fst acc else map fst acc @ [k])"
  by (induction acc k v rule: obj_set.induct) auto

lemma distinct_obj_set:
  "distinct (map fst acc) \<Longrightarrow> distinct (map fst (obj_set acc k v))"
  by (simp add: keys_obj_set)

lemma sum_obj_set:
  "sum_list (map snd (obj_set acc k v)) = sum_list (map snd acc) - or_zero (map_of acc k) + v"
  by (induction acc k v rule: obj_set.induct) (auto simp add: or_zero_def)

lemma grouped_distinct:
  "distinct (map fst acc) \<Longrightarrow> distinct (map fst (foldl group_step acc xs))"
  by (induction xs arbitrary: acc) (simp_all add: group_step_def distinct_obj_set)

lemma grouped_keys:
  "fst ` set (foldl group_step acc xs) = fst ` set acc \<union> category ` set xs"
proof (induction xs arbitrary: acc)
  case Nil
  show ?case by simp
next
  case (Cons x xs)
  have "fst ` set (group_step acc x) = insert (category x) (fst ` set acc)"
    using keys_obj_set [of acc "category x" "or_zero (map_of acc (category x)) + amount x"]
    by (metis (no_types, lifting) group_step_def insert_absorb list.set_map set_append
          list.simps(15) Un_insert_right sup_bot.right_neutral empty_set)
  with Cons.IH [of "group_step acc x"] show ?case by auto
qed

lemma grouped_lookup:
  "or_zero (map_of (foldl group_step acc xs) c)
   = or_zero (map_of acc c) + sum_list (map amount (filter (\<lambda>t. category t = c) xs))"
proof (induction xs arbitrary: acc)
  case Nil
  show ?case by simp
next
  case (Cons x xs)
  have "or_zero (map_of (group_step acc x) c)
        = or_zero (map_of acc c) + (if category x = c then amount x else 0)"
    by (simp add: group_step_def map_of_obj_set or_zero_def)
  with Cons.IH [of "group_step acc x"] show ?case by simp
qed

lemma grouped_sum:
  "sum_list (map snd (foldl group_step acc xs)) = sum_list (map snd acc) + sum_list (map amount xs)"
proof (induction xs arbitrary: acc)
  case Nil
  show ?case by simp
next
  case (Cons x xs)
  have "sum_list (map snd (group_step acc x)) = sum_list (map snd acc) + amount x"
    by (simp add: group_step_def sum_obj_set)
  with Cons.IH [of "group_step acc x"] show ?case by simp
qed

lemma set_insert_by: "set (insert_by cmp x xs) = insert x (set xs)"
  by (induction xs) auto

lemma set_js_sort: "set (js_sort cmp xs) = set xs"
  unfolding js_sort_def by (induction xs) (simp_all add: set_insert_by)

lemma sum_insert_by: "sum_list (map f (insert_by cmp x xs)) = f x + sum_list (map f xs)"
  for f :: "'a \<Rightarrow> rat"
  by (induction xs) auto

lemma sum_js_sort: "sum_list (map f (js_sort cmp xs)) = sum_list (map f xs)"
  for f :: "'a \<Rightarrow> rat"
  unfolding js_sort_def by (induction xs) (simp_all add: sum_insert_by)

lemma distinct_insert_by:
  "distinct (map f (insert_by cmp x xs)) = (f x \<notin> f ` set xs \<and> distinct (map f xs))"
  by (induction xs) (auto simp add: set_insert_by)

lemma distinct_js_sort: "distinct (map f (js_sort cmp xs)) = distinct (map f xs)"
  unfolding js_sort_def
proof (induction xs)
  case Nil
  show ?case by simp
next
  case (Cons x xs)
  have "set (foldr (insert_by cmp) xs []) = set xs"
    using set_js_sort [of cmp xs] by (simp add: js_sort_def)
  with Cons show ?case by (simp add: distinct_insert_by)
qed

lemma sorted_insert_by_desc:
  "sorted_wrt (\<lambda>a b. entry_value b \<le> entry_value a) xs \<Longrightarrow>
   sorted_wrt (\<lambda>a b. entry_value b \<le> entry_value a)
     (insert_by (\<lambda>a b. Some (entry_value b - entry_value a)) x xs)"
  by (induction xs) (auto simp add: set_insert_by cmp_value_def)

lemma sorted_js_sort_desc:
  "sorted_wrt (\<lambda>a b. entry_value b \<le> entry_value a)
     (js_sort (\<lambda>a b. Some (entry_value b - entry_value a)) xs)"
  unfolding js_sort_def by (induction xs) (simp_all add: sorted_insert_by_desc)

lemma TransactionPieChart_eq:
  "TransactionPieChart ts =
     js_sort (\<lambda>a b. Some (entry_value b - entry_value a))
       (map (\<lambda>(key, v). \<lparr>entry_name = key, entry_value = v\<rparr>)
          (foldl group_step [] (filter (\<lambda>t. ttype t = Egreso) ts)))"
proof -
  have "group_step = (\<lambda>acc item. obj_set acc (category item)
                                  (or_zero (map_of acc (category item)) + amount item))"
    by (intro ext) (simp add: group_step_def)
  then show ?thesis by (simp add: TransactionPieChart_def)
qed

lemma grouped_value:
  assumes "(k, v) \<in> set (foldl group_step [] xs)"
  shows "v = sum_list (map amount (filter (\<lambda>t. category t = k) xs))"
proof -
  have "distinct (map fst (foldl group_step [] xs))" by (rule grouped_distinct) simp
  with assms have "map_of (foldl group_step [] xs) k = Some v" by simp
  then have a: "or_zero (map_of (foldl group_step [] xs) k) = v" by (simp add: or_zero_def)
  have z: "or_zero (map_of ([] :: (string \<times> rat) list) k) = 0" by (simp add: or_zero_def)
  from grouped_lookup [of "[]" xs k] a z show ?thesis by simp
qed

text \<open>
  Claim C7. The category grouping has at most one entry per category; its categories are
  those of the expense transactions, so that income transactions contribute nothing; the
  value of each entry is the sum of the expense amounts of its category; the entries are
  in descending order of value; and the values of all entries add up to the sum of all
  expense amounts of the input.
\<close>

theorem TransactionPieChart_groups:
  "distinct (map entry_name (TransactionPieChart ts))
   \<and> set (map entry_name (TransactionPieChart ts)) = category ` set (filter (\<lambda>t. ttype t = Egreso) ts)
   \<and> map entry_value (TransactionPieChart ts)
       = map (\<lambda>e. category_total (entry_name e) ts) (TransactionPieChart ts)
   \<and> sorted_wrt (\<lambda>a b. entry_value b \<le> entry_value a) (TransactionPieChart ts)
   \<and> sum_list (map entry_value (TransactionPieChart ts)) = expense_total ts"
proof (intro conjI)
  let ?G = "foldl group_step [] (filter (\<lambda>t. ttype t = Egreso) ts)"
  have names: "map entry_name (map (\<lambda>(key, v). \<lparr>entry_name = key, entry_value = v\<rparr>) ?G) = map fst ?G"
    by (simp add: o_def case_prod_beta)
  have vals: "map entry_value (map (\<lambda>(key, v). \<lparr>entry_name = key, entry_value = v\<rparr>) ?G) = map snd ?G"
    by (simp add: o_def case_prod_beta)
  show "distinct (map entry_name (TransactionPieChart ts))"
    unfolding TransactionPieChart_eq distinct_js_sort names
    by (rule grouped_distinct) simp
  show "set (map entry_name (TransactionPieChart ts)) = category ` set (filter (\<lambda>t. ttype t = Egreso) ts)"
  proof -
    have "set (map entry_name (TransactionPieChart ts)) = fst ` set ?G"
      unfolding TransactionPieChart_eq by (simp add: set_js_sort image_image case_prod_beta)
    then show ?thesis by (simp only: grouped_keys) simp
  qed
  show "map entry_value (TransactionPieChart ts)
       = map (\<lambda>e. category_total (entry_name e) ts) (TransactionPieChart ts)"
  proof (rule map_cong [OF refl])
    fix e assume "e \<in> set (TransactionPieChart ts)"
    then have "e \<in> set (map (\<lambda>(key, v). \<lparr>entry_name = key, entry_value = v\<rparr>) ?G)"
      by (simp only: TransactionPieChart_eq set_js_sort)
    then obtain k v where kv: "(k, v) \<in> set ?G" and e: "e = \<lparr>entry_name = k, entry_value = v\<rparr>"
      by auto
    from grouped_value [OF kv] e
    show "entry_value e = category_total (entry_name e) ts"
      by (simp add: category_total_def conj_commute)
  qed
  show "sorted_wrt (\<lambda>a b. entry_value b \<le> entry_value a) (TransactionPieChart ts)"
    unfolding TransactionPieChart_eq by (rule sorted_js_sort_desc)
  show "sum_list (map entry_value (TransactionPieChart ts)) = expense_total ts"
    unfolding TransactionPieChart_eq sum_js_sort vals
    by (simp add: grouped_sum expense_total_def)
qed

end
